theory Spec2Isabelle
  imports Main
begin

section \<open>The unattend ISO resource of the provider\<close>

text \<open>
  The development follows \<^verbatim>\<open>internal/provider/iso_resource.go\<close>. The resource has
  four lifecycle handlers (Create, Read, Update, Delete) that receive a request and a
  response from the host framework, and Create additionally talks to the ISO-9660
  library and to the operating system. Everything the handlers call but do not define is
  made explicit: the outcome of each library call is read from an environment record,
  and the file system is a state that the handlers take and return.
\<close>

subsection \<open>Framework values and the resource model\<close>

text \<open>
  A value of the framework's \<^verbatim>\<open>types.String\<close> is null, unknown or a known text
  (\<^verbatim>\<open>types.StringNull()\<close>, \<^verbatim>\<open>types.StringUnknown()\<close>, \<^verbatim>\<open>types.StringValue(s)\<close>).
  A Go string is a byte sequence, and so is a HOL \<open>string\<close>.
\<close>

datatype tf_string = StringNull | StringUnknown | StringValue string

text \<open>
  \<^verbatim>\<open>ValueString()\<close> is the framework's accessor for the text of a known value; null and
  unknown values give the empty string. The handlers never call it: they call the
  \<^verbatim>\<open>String()\<close> method, the human-readable rendering of the framework, which prints a
  known value as a quoted literal. \<^verbatim>\<open>String()\<close> is not defined in this repository, so
  the handlers below take it from the environment (\<open>String_of\<close>), and the properties
  that do not depend on the rendering are stated for every environment. The rendering
  itself is \<open>quoted\<close> below; \<open>ValueString\<close> is what the specification reads
  \<^verbatim>\<open>String()\<close> as.
\<close>

fun ValueString :: "tf_string \<Rightarrow> string" where
  "ValueString (StringValue s) = s"
| "ValueString StringNull = []"
| "ValueString StringUnknown = []"

record UnattendedISOResourceModel =
  Id :: tf_string
  FileName :: tf_string
  PathOverride :: tf_string
  XMLContent :: tf_string
  ResultPath :: tf_string

subsection \<open>Diagnostics and the response\<close>

datatype diagnostic = ErrorDiagnostic string string | WarningDiagnostic string string

fun HasError :: "diagnostic list \<Rightarrow> bool" where
  "HasError [] = False"
| "HasError (ErrorDiagnostic summary detail # ds) = True"
| "HasError (WarningDiagnostic summary detail # ds) = HasError ds"

text \<open>\<^verbatim>\<open>Diagnostics.Append\<close> adds each new diagnostic unless an equal one is already there.\<close>

fun Append :: "diagnostic list \<Rightarrow> diagnostic list \<Rightarrow> diagnostic list" where
  "Append diags [] = diags"
| "Append diags (d # new) = Append (if List.member diags d then diags else diags @ [d]) new"

text \<open>
  The response of a handler: its diagnostics and the state it hands back to the host.
  \<open>None\<close> is the empty state of a declaration that is not tracked.
\<close>

record Response =
  Diagnostics :: "diagnostic list"
  State :: "UnattendedISOResourceModel option"

definition AddError :: "Response \<Rightarrow> string \<Rightarrow> string \<Rightarrow> Response" where
  "AddError resp summary detail =
     resp\<lparr>Diagnostics := Append (Diagnostics resp) [ErrorDiagnostic summary detail]\<rparr>"

subsection \<open>The environment of the handlers\<close>

text \<open>
  What the collaborators do in one invocation of a handler:
  \<^item> \<open>String_of\<close> is the \<^verbatim>\<open>String()\<close> method of \<^verbatim>\<open>types.String\<close>;
  \<^item> \<open>Get_diags\<close> are the diagnostics of \<^verbatim>\<open>req.Plan.Get\<close> or \<^verbatim>\<open>req.State.Get\<close>,
    \<open>Set_diags\<close> those of \<^verbatim>\<open>resp.State.Set\<close>;
  \<^item> \<open>NewWriter_error\<close>, \<open>AddFile_error\<close>, \<open>WriteTo_error\<close> and \<open>Cleanup_error\<close> are the
    errors of the ISO-9660 library's calls (\<open>None\<close> when the call succeeds);
  \<^item> \<open>encode\<close> is the serialisation the library's \<^verbatim>\<open>WriteTo\<close> produces for a volume
    identifier and the entries (name, content) added to the writer.
\<close>

record environment =
  String_of :: "tf_string \<Rightarrow> string"
  Get_diags :: "diagnostic list"
  Set_diags :: "diagnostic list"
  NewWriter_error :: "string option"
  AddFile_error :: "string option"
  WriteTo_error :: "string option"
  Cleanup_error :: "string option"
  encode :: "string \<Rightarrow> (string \<times> string) list \<Rightarrow> string"

text \<open>
  \<^verbatim>\<open>resp.Diagnostics.Append(resp.State.Set(ctx, &data)...)\<close>: the state is replaced
  unless \<^verbatim>\<open>Set\<close> reports an error.
\<close>

definition Set :: "environment \<Rightarrow> Response \<Rightarrow> UnattendedISOResourceModel \<Rightarrow> Response" where
  "Set ev resp data =
     (if HasError (Set_diags ev)
      then resp\<lparr>Diagnostics := Append (Diagnostics resp) (Set_diags ev)\<rparr>
      else resp\<lparr>Diagnostics := Append (Diagnostics resp) (Set_diags ev), State := Some data\<rparr>)"

subsection \<open>The ISO-9660 library\<close>

text \<open>The writer holds the entries added so far, in order.\<close>

record ImageWriter =
  staged :: "(string \<times> string) list"

definition NewWriter :: "environment \<Rightarrow> string + ImageWriter" where
  "NewWriter ev =
     (case NewWriter_error ev of Some err \<Rightarrow> Inl err | None \<Rightarrow> Inr \<lparr>staged = []\<rparr>)"

definition AddFile :: "environment \<Rightarrow> ImageWriter \<Rightarrow> string \<Rightarrow> string \<Rightarrow> string + ImageWriter" where
  "AddFile ev w content filePath =
     (case AddFile_error ev of
        Some err \<Rightarrow> Inl err
      | None \<Rightarrow> Inr (w\<lparr>staged := staged w @ [(filePath, content)]\<rparr>))"

definition WriteTo :: "environment \<Rightarrow> ImageWriter \<Rightarrow> string \<Rightarrow> string + string" where
  "WriteTo ev w volumeIdentifier =
     (case WriteTo_error ev of
        Some err \<Rightarrow> Inl err
      | None \<Rightarrow> Inr (encode ev volumeIdentifier (staged w)))"

definition Cleanup :: "environment \<Rightarrow> ImageWriter \<Rightarrow> string option" where
  "Cleanup ev w = Cleanup_error ev"

subsection \<open>The operating system\<close>

text \<open>
  The file system maps a path to the bytes of the file there. \<open>open_files\<close> lists the
  names of the file handles that were opened and not closed. \<open>TempDir\<close> is the directory
  the operating system designates for temporary files (\<^verbatim>\<open>os.TempDir()\<close>). \<open>random\<close> are
  the strings \<^verbatim>\<open>os.CreateTemp\<close> will draw for its names, \<open>open_error\<close> the error of
  opening a path for writing, and \<open>write_error\<close> the error of a write to a file
  together with the number of bytes written before it.
\<close>

record os_state =
  files :: "string \<rightharpoonup> string"
  open_files :: "string list"
  TempDir :: string
  random :: "string list"
  open_error :: "string \<Rightarrow> string option"
  write_error :: "string \<Rightarrow> (nat \<times> string) option"

text \<open>\<^verbatim>\<open>os.Create(name)\<close> creates or truncates the file; the handle's name is \<open>name\<close>.\<close>

definition os_Create :: "os_state \<Rightarrow> string \<Rightarrow> string + (string \<times> os_state)" where
  "os_Create os name =
     (case open_error os name of
        Some err \<Rightarrow> Inl err
      | None \<Rightarrow> Inr (name, os\<lparr>files := (files os)(name \<mapsto> []),
                                open_files := open_files os @ [name]\<rparr>))"

text \<open>
  \<^verbatim>\<open>os.CreateTemp(dir, pattern)\<close>: the pattern must not contain a path separator; the
  random string replaces the last \<^verbatim>\<open>*\<close> of the pattern, or is appended when there is none.
  A name that exists already is skipped and the next random string is tried.
\<close>

fun LastIndex :: "string \<Rightarrow> char \<Rightarrow> nat option" where
  "LastIndex [] c = None"
| "LastIndex (x # xs) c =
     (case LastIndex xs c of
        Some i \<Rightarrow> Some (Suc i)
      | None \<Rightarrow> if x = c then Some 0 else None)"

definition prefixAndSuffix :: "string \<Rightarrow> string + (string \<times> string)" where
  "prefixAndSuffix pattern =
     (if List.member pattern (CHR ''/'') then Inl ''pattern contains path separator''
      else case LastIndex pattern (CHR ''*'') of
        Some pos \<Rightarrow> Inr (take pos pattern, drop (Suc pos) pattern)
      | None \<Rightarrow> Inr (pattern, []))"

definition joinPath :: "string \<Rightarrow> string \<Rightarrow> string" where
  "joinPath dir name =
     (if dir \<noteq> [] \<and> last dir = CHR ''/'' then dir @ name else dir @ ''/'' @ name)"

fun CreateTemp_try :: "os_state \<Rightarrow> string \<Rightarrow> string \<Rightarrow> string list \<Rightarrow> string + (string \<times> os_state)" where
  "CreateTemp_try os prefix suffix [] = Inl ''file exists''"
| "CreateTemp_try os prefix suffix (r # rs) =
     (if files os (prefix @ r @ suffix) \<noteq> None
      then CreateTemp_try os prefix suffix rs
      else case open_error os (prefix @ r @ suffix) of
        Some err \<Rightarrow> Inl err
      | None \<Rightarrow> Inr (prefix @ r @ suffix,
                     os\<lparr>files := (files os)(prefix @ r @ suffix \<mapsto> []),
                        open_files := open_files os @ [prefix @ r @ suffix],
                        random := rs\<rparr>))"

definition CreateTemp :: "os_state \<Rightarrow> string \<Rightarrow> string \<Rightarrow> string + (string \<times> os_state)" where
  "CreateTemp os dir pattern =
     (case prefixAndSuffix pattern of
        Inl err \<Rightarrow> Inl err
      | Inr (prefix, suffix) \<Rightarrow>
          CreateTemp_try os (joinPath (if dir = [] then TempDir os else dir) prefix) suffix
            (random os))"

text \<open>
  \<^verbatim>\<open>file.Write(b)\<close> appends to what the handle has written so far; a failing write may
  have written a prefix of the bytes.
\<close>

definition Write :: "os_state \<Rightarrow> string \<Rightarrow> string \<Rightarrow> string option \<times> os_state" where
  "Write os file b =
     (let old = (case files os file of Some c \<Rightarrow> c | None \<Rightarrow> []) in
      case write_error os file of
        Some (n, err) \<Rightarrow> (Some err, os\<lparr>files := (files os)(file \<mapsto> old @ take n b)\<rparr>)
      | None \<Rightarrow> (None, os\<lparr>files := (files os)(file \<mapsto> old @ b)\<rparr>))"

subsection \<open>The lifecycle handlers\<close>

text \<open>
  \<open>Create_body\<close> is the part of \<^verbatim>\<open>Create\<close> after the \<^verbatim>\<open>defer\<close> statement (lines 137 to
  182): adding the answer file, serialising the image, opening the destination, writing
  the bytes and setting the state. Every \<^verbatim>\<open>return\<close> of the source is a branch that
  yields the response and the file system as they are at that point.
\<close>

definition Create_body ::
  "environment \<Rightarrow> os_state \<Rightarrow> UnattendedISOResourceModel \<Rightarrow> ImageWriter \<Rightarrow> Response
     \<Rightarrow> Response \<times> os_state" where
  "Create_body ev os data isoWriter resp =
     (case (if String_of ev (XMLContent data) \<noteq> []
            then AddFile ev isoWriter (String_of ev (XMLContent data)) ''unattend.xml''
            else Inr isoWriter) of
        Inl err \<Rightarrow>
          (AddError resp ''Client Error'' (''Error adding file to ISO, got error: '' @ err), os)
      | Inr isoWriter \<Rightarrow>
         (case WriteTo ev isoWriter ''unattend'' of
            Inl err \<Rightarrow>
              (AddError resp ''Client Error'' (''Error writing to ISO, got error: '' @ err), os)
          | Inr b \<Rightarrow>
             if String_of ev (PathOverride data) \<noteq> ''tmp'' then
               (case CreateTemp os ''/tmp'' (String_of ev (FileName data)) of
                  Inl err \<Rightarrow>
                    (AddError resp ''Client Error''
                       (''Error creating tmp file, got error: '' @ err), os)
                | Inr (file, os) \<Rightarrow>
                   (case Write os file b of
                      (Some err, os) \<Rightarrow>
                        (AddError resp ''Client Error''
                           (''Error writing to tmp file, got error: '' @ err), os)
                    | (None, os) \<Rightarrow>
                        (Set ev resp (data\<lparr>ResultPath := StringValue file\<rparr>), os)))
             else
               (case os_Create os
                       (String_of ev (PathOverride data) @ String_of ev (FileName data)) of
                  Inl err \<Rightarrow>
                    (AddError resp ''Client Error''
                       (''Error creating file, got error: '' @ err), os)
                | Inr (file, os) \<Rightarrow>
                   (case Write os file b of
                      (Some err, os) \<Rightarrow>
                        (AddError resp ''Client Error''
                           (''Error writing file, got error: '' @ err), os)
                    | (None, os) \<Rightarrow>
                        (Set ev resp (data\<lparr>ResultPath := StringValue file\<rparr>), os)))))"

text \<open>
  \<^verbatim>\<open>Create\<close>: decode the plan, assign the identifier, start the writer, run the body, and
  then run the deferred \<^verbatim>\<open>Cleanup\<close>, which adds a diagnostic when it fails.
\<close>

definition Create ::
  "environment \<Rightarrow> os_state \<Rightarrow> UnattendedISOResourceModel \<Rightarrow> Response \<Rightarrow> Response \<times> os_state" where
  "Create ev os plan resp =
     (let data = plan;
          resp = resp\<lparr>Diagnostics := Append (Diagnostics resp) (Get_diags ev)\<rparr>
      in if HasError (Diagnostics resp) then (resp, os)
         else
           let data = data\<lparr>Id := StringValue ''example-id''\<rparr> in
           case NewWriter ev of
             Inl err \<Rightarrow>
               (AddError resp ''Client Error''
                  (''Unable to start ISO Writer, got error: '' @ err), os)
           | Inr isoWriter \<Rightarrow>
               (case Create_body ev os data isoWriter resp of
                  (resp, os) \<Rightarrow>
                    (case Cleanup ev isoWriter of
                       Some err \<Rightarrow>
                         (AddError resp ''Client Error''
                            (''Error in ISO Writer, got error: '' @ err), os)
                     | None \<Rightarrow> (resp, os))))"

text \<open>\<^verbatim>\<open>Read\<close> decodes the prior state and sets it again.\<close>

definition Read ::
  "environment \<Rightarrow> os_state \<Rightarrow> UnattendedISOResourceModel \<Rightarrow> Response \<Rightarrow> Response \<times> os_state" where
  "Read ev os state resp =
     (let data = state;
          resp = resp\<lparr>Diagnostics := Append (Diagnostics resp) (Get_diags ev)\<rparr>
      in if HasError (Diagnostics resp) then (resp, os)
         else (Set ev resp data, os))"

text \<open>\<^verbatim>\<open>Update\<close> decodes the plan and sets it as the state.\<close>

definition Update ::
  "environment \<Rightarrow> os_state \<Rightarrow> UnattendedISOResourceModel \<Rightarrow> Response \<Rightarrow> Response \<times> os_state" where
  "Update ev os plan resp =
     (let data = plan;
          resp = resp\<lparr>Diagnostics := Append (Diagnostics resp) (Get_diags ev)\<rparr>
      in if HasError (Diagnostics resp) then (resp, os)
         else (Set ev resp data, os))"

text \<open>
  \<^verbatim>\<open>Delete\<close> decodes the prior state and returns. The host forgets the tracked state of
  a declaration whose \<^verbatim>\<open>Delete\<close> reported no error.
\<close>

definition Delete ::
  "environment \<Rightarrow> os_state \<Rightarrow> UnattendedISOResourceModel \<Rightarrow> Response \<Rightarrow> Response \<times> os_state" where
  "Delete ev os state resp =
     (let data = state;
          resp = resp\<lparr>Diagnostics := Append (Diagnostics resp) (Get_diags ev)\<rparr>
      in if HasError (Diagnostics resp) then (resp, os)
         else (resp, os))"

subsection \<open>Notions for stating properties\<close>

text \<open>
  The call by which \<^verbatim>\<open>Create\<close> opens its destination file: the condition of line 155
  with the call of line 156 and the call of line 168.
\<close>

definition open_destination ::
  "environment \<Rightarrow> os_state \<Rightarrow> UnattendedISOResourceModel \<Rightarrow> string + (string \<times> os_state)" where
  "open_destination ev os data =
     (if String_of ev (PathOverride data) \<noteq> ''tmp''
      then CreateTemp os ''/tmp'' (String_of ev (FileName data))
      else os_Create os (String_of ev (PathOverride data) @ String_of ev (FileName data)))"

text \<open>The entries \<^verbatim>\<open>Create\<close> adds to the writer (lines 137 and 138).\<close>

definition added_entries :: "environment \<Rightarrow> UnattendedISOResourceModel \<Rightarrow> (string \<times> string) list" where
  "added_entries ev data =
     (if String_of ev (XMLContent data) \<noteq> []
      then [(''unattend.xml'', String_of ev (XMLContent data))] else [])"

text \<open>
  \<open>committed\<close> describes the run of \<^verbatim>\<open>Create\<close> in which no step failed: the destination
  \<open>file\<close> was opened, the whole image was written to it, and the state was set.
\<close>

definition committed ::
  "environment \<Rightarrow> os_state \<Rightarrow> UnattendedISOResourceModel \<Rightarrow> Response \<Rightarrow> string \<Rightarrow> os_state \<Rightarrow> bool" where
  "committed ev os plan resp' file os' =
     (\<not> HasError (Get_diags ev) \<and> NewWriter_error ev = None \<and>
      (String_of ev (XMLContent plan) = [] \<or> AddFile_error ev = None) \<and>
      WriteTo_error ev = None \<and> \<not> HasError (Set_diags ev) \<and>
      (\<exists>os1. open_destination ev os plan = Inr (file, os1) \<and>
         Write os1 file (encode ev ''unattend'' (added_entries ev plan)) = (None, os')) \<and>
      State resp' =
        Some (plan\<lparr>Id := StringValue ''example-id'', ResultPath := StringValue file\<rparr>))"

subsection \<open>Example inputs\<close>

text \<open>
  Two stand-ins for the library's codec, used in examples only. In the first the image of
  a set of entries is the concatenation of their contents. In the second the image lists
  the volume identifier and then the name and the content of each entry, each field
  closed by a zero byte; \<open>listing_decode\<close> reads the entries back.
\<close>

definition payload_encode :: "string \<Rightarrow> (string \<times> string) list \<Rightarrow> string" where
  "payload_encode volumeIdentifier entries = concat (map snd entries)"

definition listing_encode :: "string \<Rightarrow> (string \<times> string) list \<Rightarrow> string" where
  "listing_encode volumeIdentifier entries =
     volumeIdentifier @ [CHR 0x00] @
     concat (map (\<lambda>(name, content). name @ [CHR 0x00] @ content @ [CHR 0x00]) entries)"

fun fields :: "string \<Rightarrow> string \<Rightarrow> string list" where
  "fields field [] = []"
| "fields field (c # cs) =
     (if c = CHR 0x00 then rev field # fields [] cs else fields (c # field) cs)"

fun entries_of :: "string list \<Rightarrow> (string \<times> string) list" where
  "entries_of (name # content # rest) = (name, content) # entries_of rest"
| "entries_of rest = []"

definition listing_decode :: "string \<Rightarrow> (string \<times> string) list" where
  "listing_decode b = entries_of (tl (fields [] b))"

text \<open>
  An environment in which every call succeeds and \<^verbatim>\<open>String()\<close> is read as the
  specification reads it, as the text of a known value (no run of the provider has this
  rendering); a file system without files; a declaration as the host plans it, with the
  computed attributes unknown; and the response the host passes to \<^verbatim>\<open>Create\<close>.
\<close>

definition quiet_env :: environment where
  "quiet_env = \<lparr>String_of = ValueString, Get_diags = [], Set_diags = [],
     NewWriter_error = None, AddFile_error = None, WriteTo_error = None, Cleanup_error = None,
     encode = payload_encode\<rparr>"

definition empty_os :: os_state where
  "empty_os = \<lparr>files = Map.empty, open_files = [], TempDir = ''/tmp'', random = [''123456''],
     open_error = (\<lambda>name. None), write_error = (\<lambda>name. None)\<rparr>"

definition declared :: "string \<Rightarrow> string \<Rightarrow> string \<Rightarrow> UnattendedISOResourceModel" where
  "declared file_name path_override xml_content =
     \<lparr>Id = StringUnknown, FileName = StringValue file_name,
      PathOverride = StringValue path_override, XMLContent = StringValue xml_content,
      ResultPath = StringUnknown\<rparr>"

definition empty_response :: Response where
  "empty_response = \<lparr>Diagnostics = [], State = None\<rparr>"

text \<open>
  The rendering of \<^verbatim>\<open>String()\<close>: a known value as a quoted literal (the format
  \<^verbatim>\<open>%q\<close>), and a description for null and unknown values. Inside the quotes a double
  quote and a backslash are preceded by a backslash, the control characters have their
  named escapes or \<^verbatim>\<open>\x\<close> and two hexadecimal digits, and the printable characters
  stand for themselves. Bytes from 0x80 on are copied, as they are for printable text in
  UTF-8.
\<close>

definition hex2 :: "char \<Rightarrow> string" where
  "hex2 c = [''0123456789abcdef'' ! ((of_char c :: nat) div 16),
             ''0123456789abcdef'' ! ((of_char c :: nat) mod 16)]"

definition quote_byte :: "char \<Rightarrow> string" where
  "quote_byte c =
     (if c = CHR 0x22 \<or> c = CHR 0x5C then [CHR 0x5C, c]
      else if c = CHR 0x07 then [CHR 0x5C, CHR ''a'']
      else if c = CHR 0x08 then [CHR 0x5C, CHR ''b'']
      else if c = CHR 0x0C then [CHR 0x5C, CHR ''f'']
      else if c = CHR 0x0A then [CHR 0x5C, CHR ''n'']
      else if c = CHR 0x0D then [CHR 0x5C, CHR ''r'']
      else if c = CHR 0x09 then [CHR 0x5C, CHR ''t'']
      else if c = CHR 0x0B then [CHR 0x5C, CHR ''v'']
      else if (of_char c :: nat) < 0x20 \<or> c = CHR 0x7F then [CHR 0x5C, CHR ''x''] @ hex2 c
      else [c])"

fun quoted :: "tf_string \<Rightarrow> string" where
  "quoted (StringValue s) = CHR 0x22 # concat (map quote_byte s) @ [CHR 0x22]"
| "quoted StringNull = ''<null>''"
| "quoted StringUnknown = ''<unknown>''"

text \<open>The environment of a run in which every call succeeds.\<close>

definition quoting_env :: environment where
  "quoting_env = quiet_env\<lparr>String_of := quoted, encode := listing_encode\<rparr>"

text \<open>
  A file system on which every write stops after two bytes, and one whose designated
  directory for temporary files is not \<^verbatim>\<open>/tmp\<close>.
\<close>

definition full_disk :: os_state where
  "full_disk = empty_os\<lparr>write_error := (\<lambda>name. Some (2, ''no space left on device''))\<rparr>"

definition other_temp_os :: os_state where
  "other_temp_os = empty_os\<lparr>TempDir := ''/var/tmp''\<rparr>"

section \<open>Properties\<close>

subsection \<open>Diagnostics\<close>

lemma HasError_append: "HasError (xs @ ys) = (HasError xs \<or> HasError ys)"
  by (induction xs rule: HasError.induct) simp_all

lemma HasError_member: "d \<in> set ds \<Longrightarrow> HasError [d] \<Longrightarrow> HasError ds"
  by (induction ds rule: HasError.induct) auto

lemma HasError_Append: "HasError (Append ds new) = (HasError ds \<or> HasError new)"
proof (induction new arbitrary: ds)
  case Nil
  show ?case by simp
next
  case (Cons d new)
  have "HasError (d # new) = (HasError [d] \<or> HasError new)"
    using HasError_append [of "[d]" new] by simp
  with Cons show ?case
    by (auto simp: HasError_append dest: HasError_member)
qed

lemma HasError_AddError: "HasError (Diagnostics (AddError resp summary detail))"
  by (simp add: AddError_def HasError_Append del: Append.simps)

lemma State_AddError: "State (AddError resp summary detail) = State resp"
  by (simp add: AddError_def)

lemma State_Set:
  "State (Set ev resp data) = (if HasError (Set_diags ev) then State resp else Some data)"
  by (simp add: Set_def)

lemma HasError_Set:
  "HasError (Diagnostics (Set ev resp data)) =
     (HasError (Diagnostics resp) \<or> HasError (Set_diags ev))"
  by (simp add: Set_def HasError_Append)

subsection \<open>Operating system calls\<close>

lemma CreateTemp_try_Inr:
  "CreateTemp_try os p s rs = Inr (f, os') \<Longrightarrow>
     files os f = None \<and> open_error os f = None \<and> f \<in> (\<lambda>r. p @ r @ s) ` set rs \<and>
     files os' = (files os)(f \<mapsto> []) \<and> open_files os' = open_files os @ [f] \<and>
     TempDir os' = TempDir os \<and> open_error os' = open_error os \<and>
     write_error os' = write_error os"
  by (induction rs) (auto split: if_splits option.splits)

lemma CreateTemp_Inr:
  "CreateTemp os dir pattern = Inr (f, os') \<Longrightarrow>
     files os f = None \<and>
     files os' = (files os)(f \<mapsto> []) \<and> open_files os' = open_files os @ [f] \<and>
     TempDir os' = TempDir os \<and> open_error os' = open_error os \<and>
     write_error os' = write_error os"
  by (auto simp: CreateTemp_def split: sum.splits dest!: CreateTemp_try_Inr)

lemma os_Create_Inr:
  "os_Create os name = Inr (f, os') \<Longrightarrow>
     f = name \<and>
     files os' = (files os)(f \<mapsto> []) \<and> open_files os' = open_files os @ [f] \<and>
     TempDir os' = TempDir os \<and> open_error os' = open_error os \<and>
     write_error os' = write_error os"
  by (auto simp: os_Create_def split: option.splits)

lemma open_destination_Inr:
  "open_destination ev os data = Inr (f, os') \<Longrightarrow>
     files os' = (files os)(f \<mapsto> []) \<and> open_files os' = open_files os @ [f] \<and>
     TempDir os' = TempDir os \<and> open_error os' = open_error os \<and>
     write_error os' = write_error os"
  by (auto simp: open_destination_def split: if_splits dest: os_Create_Inr CreateTemp_Inr)

lemma Write_None:
  "Write os f b = (None, os') \<Longrightarrow>
     write_error os f = None \<and>
     files os' = (files os)(f \<mapsto> (case files os f of Some c \<Rightarrow> c | None \<Rightarrow> []) @ b) \<and>
     open_files os' = open_files os"
  by (auto simp: Write_def Let_def split: option.splits)

lemma Write_open_files: "open_files (snd (Write os f b)) = open_files os"
  by (auto simp: Write_def Let_def split: option.splits)


subsection \<open>The outcomes of Create\<close>

lemma open_destination_Id [simp]:
  "open_destination ev os (data\<lparr>Id := i\<rparr>) = open_destination ev os data"
  by (simp add: open_destination_def)

lemma added_entries_Id [simp]: "added_entries ev (data\<lparr>Id := i\<rparr>) = added_entries ev data"
  by (simp add: added_entries_def)

lemma Create_body_result:
  "Create_body ev os data \<lparr>staged = []\<rparr> resp =
     (if String_of ev (XMLContent data) \<noteq> [] \<and> AddFile_error ev \<noteq> None
      then (AddError resp ''Client Error''
              (''Error adding file to ISO, got error: '' @ the (AddFile_error ev)), os)
      else case WriteTo_error ev of
        Some err \<Rightarrow>
          (AddError resp ''Client Error'' (''Error writing to ISO, got error: '' @ err), os)
      | None \<Rightarrow>
         (case open_destination ev os data of
            Inl err \<Rightarrow>
              (AddError resp ''Client Error''
                 ((if String_of ev (PathOverride data) \<noteq> ''tmp''
                   then ''Error creating tmp file, got error: ''
                   else ''Error creating file, got error: '') @ err), os)
          | Inr (file, os1) \<Rightarrow>
             (case Write os1 file (encode ev ''unattend'' (added_entries ev data)) of
                (Some err, os2) \<Rightarrow>
                  (AddError resp ''Client Error''
                     ((if String_of ev (PathOverride data) \<noteq> ''tmp''
                       then ''Error writing to tmp file, got error: ''
                       else ''Error writing file, got error: '') @ err), os2)
              | (None, os2) \<Rightarrow>
                  (Set ev resp (data\<lparr>ResultPath := StringValue file\<rparr>), os2))))"
proof (cases "String_of ev (XMLContent data) \<noteq> [] \<and> AddFile_error ev \<noteq> None")
  case True
  then show ?thesis
    by (auto simp: Create_body_def AddFile_def)
next
  case noadd: False
  have staged: "(if String_of ev (XMLContent data) \<noteq> []
            then AddFile ev \<lparr>staged = []\<rparr> (String_of ev (XMLContent data)) ''unattend.xml''
            else Inr \<lparr>staged = []\<rparr>) = Inr \<lparr>staged = added_entries ev data\<rparr>"
    using noadd by (auto simp: AddFile_def added_entries_def)
  show ?thesis
  proof (cases "WriteTo_error ev")
    case (Some err)
    with noadd show ?thesis
      unfolding Create_body_def staged by (auto simp: WriteTo_def)
  next
    case None
    show ?thesis
    proof (cases "String_of ev (PathOverride data) \<noteq> ''tmp''")
      case True
      with noadd None show ?thesis
        unfolding Create_body_def staged open_destination_def
        by (auto simp: WriteTo_def)
    next
      case False
      with noadd None show ?thesis
        unfolding Create_body_def staged open_destination_def
        by (auto simp: WriteTo_def)
    qed
  qed
qed


lemma Create_body_outcome:
  assumes "Create_body ev os data \<lparr>staged = []\<rparr> resp = (resp', os')"
  shows "(HasError (Diagnostics resp') \<and> State resp' = State resp) \<or>
         ((String_of ev (XMLContent data) = [] \<or> AddFile_error ev = None) \<and>
          WriteTo_error ev = None \<and> \<not> HasError (Set_diags ev) \<and>
          (\<exists>file os1. open_destination ev os data = Inr (file, os1) \<and>
             Write os1 file (encode ev ''unattend'' (added_entries ev data)) = (None, os') \<and>
             State resp' = Some (data\<lparr>ResultPath := StringValue file\<rparr>)))"
  using assms unfolding Create_body_result
  by (auto simp: HasError_AddError State_AddError State_Set HasError_Set
           split: if_splits option.splits sum.splits prod.splits)


lemma Create_outcome:
  assumes "Create ev os plan resp = (resp', os')"
  shows "(HasError (Diagnostics resp') \<and> State resp' = State resp) \<or>
         (\<exists>file. committed ev os plan resp' file os')"
proof (cases "HasError (Append (Diagnostics resp) (Get_diags ev))")
  case True
  with assms show ?thesis by (auto simp: Create_def)
next
  case ok: False
  let ?resp = "resp\<lparr>Diagnostics := Append (Diagnostics resp) (Get_diags ev)\<rparr>"
  let ?data = "plan\<lparr>Id := StringValue ''example-id''\<rparr>"
  show ?thesis
  proof (cases "NewWriter_error ev")
    case (Some err)
    with ok assms show ?thesis
      by (auto simp: Create_def NewWriter_def HasError_AddError State_AddError)
  next
    case None
    obtain r o1 where body: "Create_body ev os ?data \<lparr>staged = []\<rparr> ?resp = (r, o1)"
      by (cases "Create_body ev os ?data \<lparr>staged = []\<rparr> ?resp") blast
    from ok None assms body have os': "os' = o1"
      by (auto simp: Create_def NewWriter_def Cleanup_def split: option.splits)
    from ok None assms body have st: "State resp' = State r"
      by (auto simp: Create_def NewWriter_def Cleanup_def State_AddError split: option.splits)
    from ok None assms body have err: "HasError (Diagnostics r) \<Longrightarrow> HasError (Diagnostics resp')"
      by (auto simp: Create_def NewWriter_def Cleanup_def HasError_AddError split: option.splits)
    from ok have get: "\<not> HasError (Get_diags ev)"
      by (simp add: HasError_Append)
    from Create_body_outcome [OF body] show ?thesis
    proof
      assume "HasError (Diagnostics r) \<and> State r = State ?resp"
      with st err show ?thesis by simp
    next
      assume "(String_of ev (XMLContent ?data) = [] \<or> AddFile_error ev = None) \<and>
          WriteTo_error ev = None \<and> \<not> HasError (Set_diags ev) \<and>
          (\<exists>file os1. open_destination ev os ?data = Inr (file, os1) \<and>
             Write os1 file (encode ev ''unattend'' (added_entries ev ?data)) = (None, o1) \<and>
             State r = Some (?data\<lparr>ResultPath := StringValue file\<rparr>))"
      with None get st os' have "\<exists>file. committed ev os plan resp' file os'"
        unfolding committed_def by auto
      then show ?thesis ..
    qed
  qed
qed

lemma committed_files:
  assumes "committed ev os plan resp' file os'"
  shows "files os' = (files os)(file \<mapsto> encode ev ''unattend'' (added_entries ev plan))"
    and "open_files os' = open_files os @ [file]"
proof -
  from assms obtain os1 where
    dest: "open_destination ev os plan = Inr (file, os1)" and
    wr: "Write os1 file (encode ev ''unattend'' (added_entries ev plan)) = (None, os')"
    unfolding committed_def by blast
  from open_destination_Inr [OF dest] Write_None [OF wr]
  show "files os' = (files os)(file \<mapsto> encode ev ''unattend'' (added_entries ev plan))"
    by simp
  from open_destination_Inr [OF dest] Write_None [OF wr]
  show "open_files os' = open_files os @ [file]"
    by simp
qed

lemma Create_committed:
  assumes "State resp = None" and "State (fst (Create ev os plan resp)) = Some d"
  shows "\<exists>file. committed ev os plan (fst (Create ev os plan resp)) file
           (snd (Create ev os plan resp))"
  using Create_outcome [of ev os plan resp "fst (Create ev os plan resp)"
      "snd (Create ev os plan resp)"] assms
  by auto

lemma committed_ResultPath:
  assumes "committed ev os plan resp' file os'" and "State resp' = Some d"
  shows "d = plan\<lparr>Id := StringValue ''example-id'', ResultPath := StringValue file\<rparr>"
  using assms by (simp add: committed_def)

text \<open>
  A run of \<^verbatim>\<open>Create\<close> that sets the state has written the whole image to the path it
  records, and the handle of that file is among the open ones.
\<close>

lemma Create_written:
  assumes "State resp = None" and "State (fst (Create ev os plan resp)) = Some d"
  shows "\<exists>p. ResultPath d = StringValue p \<and>
           files (snd (Create ev os plan resp)) p =
             Some (encode ev ''unattend'' (added_entries ev plan)) \<and>
           p \<in> set (open_files (snd (Create ev os plan resp)))"
proof -
  from Create_committed [OF assms] obtain p where
    k: "committed ev os plan (fst (Create ev os plan resp)) p (snd (Create ev os plan resp))"
    by blast
  from committed_ResultPath [OF k assms(2)] have "ResultPath d = StringValue p"
    by simp
  with committed_files [OF k] show ?thesis
    by simp
qed

subsection \<open>The rendering\<close>

text \<open>
  No value is rendered as the empty string, as the sentinel \<^verbatim>\<open>tmp\<close> or as its own text.
  So the test of line 137 always passes and the content that is added is the quoted one,
  and the test of line 155 always passes and the branch of line 168 is never taken.
\<close>

lemma quoted_not_empty: "quoted v \<noteq> []"
  by (cases v) simp_all

lemma quoted_not_tmp: "quoted v \<noteq> ''tmp''"
  by (cases v) simp_all

lemma quote_byte_length: "1 \<le> length (quote_byte c)"
  by (simp add: quote_byte_def hex2_def)

lemma concat_quote_byte_length: "length s \<le> length (concat (map quote_byte s))"
proof (induction s)
  case Nil
  show ?case by simp
next
  case (Cons a s)
  have "1 \<le> length (quote_byte a)"
    by (rule quote_byte_length)
  with Cons show ?case by simp
qed

lemma quoted_not_text: "quoted (StringValue s) \<noteq> s"
proof
  assume "quoted (StringValue s) = s"
  then have "length (quoted (StringValue s)) = length s"
    by (rule arg_cong)
  moreover have "length s < length (quoted (StringValue s))"
    using concat_quote_byte_length [of s] by simp
  ultimately show False by linarith
qed

lemma added_entries_quoted:
  "String_of ev = quoted \<Longrightarrow>
     added_entries ev plan = [(''unattend.xml'', quoted (XMLContent plan))]"
  by (simp add: added_entries_def quoted_not_empty)

lemma open_destination_quoted:
  "String_of ev = quoted \<Longrightarrow>
     open_destination ev os plan = CreateTemp os ''/tmp'' (quoted (FileName plan))"
  by (simp add: open_destination_def quoted_not_tmp)

subsection \<open>Runs of Create on the example inputs\<close>

text \<open>A run under the rendering the specification presupposes.\<close>

lemma Create_data_example:
  "Create quiet_env empty_os (declared ''answer.iso'' ''/data/'' ''<x/>'') empty_response =
     (\<lparr>Diagnostics = [],
       State = Some \<lparr>Id = StringValue ''example-id'', FileName = StringValue ''answer.iso'',
                      PathOverride = StringValue ''/data/'', XMLContent = StringValue ''<x/>'',
                      ResultPath = StringValue ''/tmp/answer.iso123456''\<rparr>\<rparr>,
      empty_os\<lparr>files := [''/tmp/answer.iso123456'' \<mapsto> ''<x/>''],
               open_files := [''/tmp/answer.iso123456''], random := []\<rparr>)"
  by (simp add: Create_def Create_body_def quiet_env_def empty_os_def declared_def
      empty_response_def NewWriter_def AddFile_def WriteTo_def Cleanup_def CreateTemp_def
      prefixAndSuffix_def joinPath_def Write_def Set_def payload_encode_def)

text \<open>
  Runs under the rendering of \<^verbatim>\<open>String()\<close>: an override, the sentinel on a system whose
  temporary directory is \<^verbatim>\<open>/var/tmp\<close>, and an empty content.
\<close>

lemma Create_data_quoting_example:
  "Create quoting_env empty_os (declared ''answer.iso'' ''/data/'' ''<x/>'') empty_response =
     (\<lparr>Diagnostics = [],
       State = Some \<lparr>Id = StringValue ''example-id'', FileName = StringValue ''answer.iso'',
           PathOverride = StringValue ''/data/'', XMLContent = StringValue ''<x/>'',
           ResultPath = StringValue
             (''/tmp/'' @ quoted (StringValue ''answer.iso'') @ ''123456'')\<rparr>\<rparr>,
      empty_os\<lparr>files := [''/tmp/'' @ quoted (StringValue ''answer.iso'') @ ''123456'' \<mapsto>
                 encode quoting_env ''unattend''
                   [(''unattend.xml'', quoted (StringValue ''<x/>''))]],
               open_files := [''/tmp/'' @ quoted (StringValue ''answer.iso'') @ ''123456''],
               random := []\<rparr>)"
  by (simp add: Create_def Create_body_def quiet_env_def quoting_env_def empty_os_def
      declared_def empty_response_def NewWriter_def AddFile_def WriteTo_def Cleanup_def
      CreateTemp_def prefixAndSuffix_def joinPath_def Write_def Set_def listing_encode_def
      quote_byte_def)

lemma Create_tmp_quoting_example:
  "Create quoting_env other_temp_os (declared ''answer.iso'' ''tmp'' ''<x/>'') empty_response =
     (\<lparr>Diagnostics = [],
       State = Some \<lparr>Id = StringValue ''example-id'', FileName = StringValue ''answer.iso'',
           PathOverride = StringValue ''tmp'', XMLContent = StringValue ''<x/>'',
           ResultPath = StringValue
             (''/tmp/'' @ quoted (StringValue ''answer.iso'') @ ''123456'')\<rparr>\<rparr>,
      other_temp_os\<lparr>files := [''/tmp/'' @ quoted (StringValue ''answer.iso'') @ ''123456'' \<mapsto>
                 encode quoting_env ''unattend''
                   [(''unattend.xml'', quoted (StringValue ''<x/>''))]],
               open_files := [''/tmp/'' @ quoted (StringValue ''answer.iso'') @ ''123456''],
               random := []\<rparr>)"
  by (simp add: Create_def Create_body_def quiet_env_def quoting_env_def empty_os_def
      declared_def empty_response_def NewWriter_def AddFile_def WriteTo_def Cleanup_def
      CreateTemp_def prefixAndSuffix_def joinPath_def Write_def Set_def listing_encode_def
      quote_byte_def other_temp_os_def)

lemma Create_empty_quoting_example:
  "Create quoting_env empty_os (declared ''answer.iso'' ''tmp'' []) empty_response =
     (\<lparr>Diagnostics = [],
       State = Some \<lparr>Id = StringValue ''example-id'', FileName = StringValue ''answer.iso'',
           PathOverride = StringValue ''tmp'', XMLContent = StringValue [],
           ResultPath = StringValue
             (''/tmp/'' @ quoted (StringValue ''answer.iso'') @ ''123456'')\<rparr>\<rparr>,
      empty_os\<lparr>files := [''/tmp/'' @ quoted (StringValue ''answer.iso'') @ ''123456'' \<mapsto>
                 encode quoting_env ''unattend''
                   [(''unattend.xml'', quoted (StringValue []))]],
               open_files := [''/tmp/'' @ quoted (StringValue ''answer.iso'') @ ''123456''],
               random := []\<rparr>)"
  by (simp add: Create_def Create_body_def quiet_env_def quoting_env_def empty_os_def
      declared_def empty_response_def NewWriter_def AddFile_def WriteTo_def Cleanup_def
      CreateTemp_def prefixAndSuffix_def joinPath_def Write_def Set_def listing_encode_def
      quote_byte_def)

text \<open>A run in which the write fails after the destination was opened.\<close>

lemma open_destination_example:
  "open_destination quoting_env full_disk (declared ''a.iso'' ''/tmp/out/'' ''<x/>'') =
     Inr (''/tmp/'' @ quoted (StringValue ''a.iso'') @ ''123456'',
          full_disk\<lparr>files := [''/tmp/'' @ quoted (StringValue ''a.iso'') @ ''123456'' \<mapsto> []],
                    open_files := [''/tmp/'' @ quoted (StringValue ''a.iso'') @ ''123456''],
                    random := []\<rparr>)"
  by (simp add: open_destination_def quiet_env_def quoting_env_def full_disk_def empty_os_def
      declared_def CreateTemp_def prefixAndSuffix_def joinPath_def quote_byte_def)

lemma Create_full_disk_example:
  "Create quoting_env full_disk (declared ''a.iso'' ''/tmp/out/'' ''<x/>'') empty_response =
     (\<lparr>Diagnostics = [ErrorDiagnostic ''Client Error''
          ''Error writing to tmp file, got error: no space left on device''],
       State = None\<rparr>,
      full_disk\<lparr>files := [''/tmp/'' @ quoted (StringValue ''a.iso'') @ ''123456'' \<mapsto> ''un''],
               open_files := [''/tmp/'' @ quoted (StringValue ''a.iso'') @ ''123456''],
               random := []\<rparr>)"
  by (simp add: Create_def Create_body_def quiet_env_def quoting_env_def empty_os_def
      declared_def empty_response_def NewWriter_def AddFile_def WriteTo_def Cleanup_def
      CreateTemp_def prefixAndSuffix_def joinPath_def Write_def Set_def listing_encode_def
      quote_byte_def full_disk_def AddError_def)

section \<open>The claims\<close>

subsection \<open>The destination of the image\<close>

text \<open>
  C1 says that an override other than \<^verbatim>\<open>tmp\<close> is concatenated with the file name and the
  image is written there. The test of line 155 sends exactly these declarations to
  \<^verbatim>\<open>os.CreateTemp("/tmp", file_name)\<close>: for the override \<^verbatim>\<open>/data/\<close> and the file name
  \<^verbatim>\<open>answer.iso\<close> the recorded path is a temporary name under \<^verbatim>\<open>/tmp\<close> and nothing is
  written to \<^verbatim>\<open>/data/answer.iso\<close>, whether \<^verbatim>\<open>String()\<close> yields the text or quotes it.
\<close>

theorem Create_override_goes_to_temp_file:
  "State (fst (Create quiet_env empty_os (declared ''answer.iso'' ''/data/'' ''<x/>'')
      empty_response)) =
     Some \<lparr>Id = StringValue ''example-id'', FileName = StringValue ''answer.iso'',
           PathOverride = StringValue ''/data/'', XMLContent = StringValue ''<x/>'',
           ResultPath = StringValue ''/tmp/answer.iso123456''\<rparr> \<and>
   files (snd (Create quiet_env empty_os (declared ''answer.iso'' ''/data/'' ''<x/>'')
      empty_response)) ''/data/answer.iso'' = None \<and>
   files (snd (Create quiet_env empty_os (declared ''answer.iso'' ''/data/'' ''<x/>'')
      empty_response)) ''/tmp/answer.iso123456'' = Some ''<x/>'' \<and>
   State (fst (Create quoting_env empty_os (declared ''answer.iso'' ''/data/'' ''<x/>'')
      empty_response)) =
     Some \<lparr>Id = StringValue ''example-id'', FileName = StringValue ''answer.iso'',
           PathOverride = StringValue ''/data/'', XMLContent = StringValue ''<x/>'',
           ResultPath = StringValue
             (''/tmp/'' @ quoted (StringValue ''answer.iso'') @ ''123456'')\<rparr> \<and>
   files (snd (Create quoting_env empty_os (declared ''answer.iso'' ''/data/'' ''<x/>'')
      empty_response)) ''/data/answer.iso'' = None"
  by (simp add: Create_data_example Create_data_quoting_example)

text \<open>
  C2 says that the sentinel \<^verbatim>\<open>tmp\<close> leads to a uniquely named file in the directory the
  operating system designates for temporary files. The directory in the call of line 156
  is the constant \<^verbatim>\<open>/tmp\<close>: on a system whose temporary directory is \<^verbatim>\<open>/var/tmp\<close>, the
  declaration with the sentinel and the file name \<^verbatim>\<open>answer.iso\<close> is written to a file
  under \<^verbatim>\<open>/tmp\<close>, and the recorded path is not inside the temporary directory.
\<close>

theorem Create_sentinel_ignores_TempDir:
  "TempDir other_temp_os = ''/var/tmp'' \<and>
   State (fst (Create quoting_env other_temp_os (declared ''answer.iso'' ''tmp'' ''<x/>'')
      empty_response)) =
     Some \<lparr>Id = StringValue ''example-id'', FileName = StringValue ''answer.iso'',
           PathOverride = StringValue ''tmp'', XMLContent = StringValue ''<x/>'',
           ResultPath = StringValue
             (''/tmp/'' @ quoted (StringValue ''answer.iso'') @ ''123456'')\<rparr> \<and>
   take (length (TempDir other_temp_os))
     (''/tmp/'' @ quoted (StringValue ''answer.iso'') @ ''123456'') \<noteq> TempDir other_temp_os \<and>
   take 5 (''/tmp/'' @ quoted (StringValue ''answer.iso'') @ ''123456'') = ''/tmp/'' \<and>
   files (snd (Create quoting_env other_temp_os (declared ''answer.iso'' ''tmp'' ''<x/>'')
      empty_response)) (''/tmp/'' @ quoted (StringValue ''answer.iso'') @ ''123456'') \<noteq> None"
  by (simp add: Create_tmp_quoting_example) (simp add: other_temp_os_def empty_os_def)

subsection \<open>The content of the image\<close>

text \<open>
  C3 says that the image holds \<^verbatim>\<open>unattend.xml\<close> only for a content that is not empty.
  Line 137 tests the rendering of the content, and the empty content is rendered as two
  double quotes: for the declaration with the empty content the image written at the
  recorded path holds the file \<^verbatim>\<open>unattend.xml\<close>, whose bytes are the two quotes.
\<close>

theorem Create_empty_content_adds_entry:
  "State (fst (Create quoting_env empty_os (declared ''answer.iso'' ''tmp'' [])
      empty_response)) =
     Some \<lparr>Id = StringValue ''example-id'', FileName = StringValue ''answer.iso'',
           PathOverride = StringValue ''tmp'', XMLContent = StringValue [],
           ResultPath = StringValue
             (''/tmp/'' @ quoted (StringValue ''answer.iso'') @ ''123456'')\<rparr> \<and>
   files (snd (Create quoting_env empty_os (declared ''answer.iso'' ''tmp'' [])
      empty_response)) (''/tmp/'' @ quoted (StringValue ''answer.iso'') @ ''123456'') =
     Some (listing_encode ''unattend'' [(''unattend.xml'', [CHR 0x22, CHR 0x22])]) \<and>
   listing_decode (listing_encode ''unattend'' [(''unattend.xml'', [CHR 0x22, CHR 0x22])]) =
     [(''unattend.xml'', [CHR 0x22, CHR 0x22])] \<and>
   listing_encode ''unattend'' [(''unattend.xml'', [CHR 0x22, CHR 0x22])] \<noteq>
     listing_encode ''unattend'' []"
  by (simp add: Create_empty_quoting_example)
    (simp add: quoting_env_def listing_encode_def listing_decode_def)

text \<open>
  C4 says that the file \<^verbatim>\<open>unattend.xml\<close> of the image has the declared content as its
  bytes. Line 138 adds the rendering of the content: for the content \<^verbatim>\<open><x/>\<close> the image
  written at the recorded path holds \<^verbatim>\<open>unattend.xml\<close> with the content between double
  quotes, two bytes more than what was declared.
\<close>

theorem Create_stores_quoted_content:
  "State (fst (Create quoting_env empty_os (declared ''answer.iso'' ''/data/'' ''<x/>'')
      empty_response)) =
     Some \<lparr>Id = StringValue ''example-id'', FileName = StringValue ''answer.iso'',
           PathOverride = StringValue ''/data/'', XMLContent = StringValue ''<x/>'',
           ResultPath = StringValue
             (''/tmp/'' @ quoted (StringValue ''answer.iso'') @ ''123456'')\<rparr> \<and>
   files (snd (Create quoting_env empty_os (declared ''answer.iso'' ''/data/'' ''<x/>'')
      empty_response)) (''/tmp/'' @ quoted (StringValue ''answer.iso'') @ ''123456'') =
     Some (listing_encode ''unattend'' [(''unattend.xml'', CHR 0x22 # ''<x/>'' @ [CHR 0x22])]) \<and>
   map_of (listing_decode
       (listing_encode ''unattend'' [(''unattend.xml'', CHR 0x22 # ''<x/>'' @ [CHR 0x22])]))
     ''unattend.xml'' = Some (CHR 0x22 # ''<x/>'' @ [CHR 0x22]) \<and>
   CHR 0x22 # ''<x/>'' @ [CHR 0x22] \<noteq> ''<x/>''"
  by (simp add: Create_data_quoting_example)
    (simp add: quoting_env_def listing_encode_def listing_decode_def quote_byte_def)

subsection \<open>Failures of Create\<close>

text \<open>
  C5: when a step of \<^verbatim>\<open>Create\<close> fails (decoding the plan, starting the writer, adding the
  file, serialising the image, opening the destination file, or writing the bytes),
  \<^verbatim>\<open>Create\<close> reports an error and the state of the declaration stays empty.
\<close>

theorem Create_failure_commits_no_state:
  assumes "State resp = None"
    and "HasError (Get_diags ev) \<or> NewWriter_error ev \<noteq> None \<or>
         (String_of ev (XMLContent plan) \<noteq> [] \<and> AddFile_error ev \<noteq> None) \<or>
         WriteTo_error ev \<noteq> None \<or>
         (\<exists>err. open_destination ev os plan = Inl err) \<or>
         (\<exists>file os1. open_destination ev os plan = Inr (file, os1) \<and>
            write_error os1 file \<noteq> None)"
  shows "HasError (Diagnostics (fst (Create ev os plan resp))) \<and>
         State (fst (Create ev os plan resp)) = None"
proof -
  obtain resp' os' where c: "Create ev os plan resp = (resp', os')"
    by (cases "Create ev os plan resp") blast
  have "\<not> committed ev os plan resp' f os'" for f
  proof
    assume k: "committed ev os plan resp' f os'"
    then obtain os1 where
      dest: "open_destination ev os plan = Inr (f, os1)" and
      wr: "Write os1 f (encode ev ''unattend'' (added_entries ev plan)) = (None, os')"
      unfolding committed_def by blast
    from Write_None [OF wr] have "write_error os1 f = None" by simp
    with k dest assms(2) show False
      unfolding committed_def by auto
  qed
  with Create_outcome [OF c] assms(1) c show ?thesis by auto
qed

theorem Create_failure_commits_no_state_witness:
  "State empty_response = None \<and>
   NewWriter_error (quoting_env\<lparr>NewWriter_error := Some ''no staging directory''\<rparr>) \<noteq> None \<and>
   HasError (Diagnostics (fst (Create
     (quoting_env\<lparr>NewWriter_error := Some ''no staging directory''\<rparr>)
     empty_os (declared ''a.iso'' ''/tmp/out/'' ''<x/>'') empty_response))) \<and>
   State (fst (Create (quoting_env\<lparr>NewWriter_error := Some ''no staging directory''\<rparr>)
     empty_os (declared ''a.iso'' ''/tmp/out/'' ''<x/>'') empty_response)) = None \<and>
   (\<exists>file os1.
      open_destination quoting_env full_disk (declared ''a.iso'' ''/tmp/out/'' ''<x/>'') =
        Inr (file, os1) \<and> write_error os1 file \<noteq> None) \<and>
   HasError (Diagnostics (fst (Create quoting_env full_disk
     (declared ''a.iso'' ''/tmp/out/'' ''<x/>'') empty_response))) \<and>
   State (fst (Create quoting_env full_disk
     (declared ''a.iso'' ''/tmp/out/'' ''<x/>'') empty_response)) = None"
proof -
  have st: "State empty_response = None"
    by (simp add: empty_response_def)
  have nw: "NewWriter_error (quoting_env\<lparr>NewWriter_error := Some ''no staging directory''\<rparr>)
      \<noteq> None"
    by simp
  have wr: "\<exists>file os1.
      open_destination quoting_env full_disk (declared ''a.iso'' ''/tmp/out/'' ''<x/>'') =
        Inr (file, os1) \<and> write_error os1 file \<noteq> None"
    unfolding open_destination_example by (simp add: full_disk_def)
  from Create_failure_commits_no_state [of empty_response
      "quoting_env\<lparr>NewWriter_error := Some ''no staging directory''\<rparr>"
      "declared ''a.iso'' ''/tmp/out/'' ''<x/>''" empty_os] st nw
    Create_failure_commits_no_state [of empty_response quoting_env
      "declared ''a.iso'' ''/tmp/out/'' ''<x/>''" full_disk] wr
  show ?thesis by blast
qed

subsection \<open>Read, Update and Delete\<close>

text \<open>
  C6: \<^verbatim>\<open>Read\<close> hands back the prior state with every field unchanged, leaves the file
  system as it is, and its response does not depend on the file system: it never looks
  whether the image is still there.
\<close>

theorem Read_passthrough:
  assumes "State resp = Some state"
  shows "State (fst (Read ev os state resp)) = Some state \<and>
         snd (Read ev os state resp) = os \<and>
         fst (Read ev os state resp) = fst (Read ev os' state resp)"
  using assms by (simp add: Read_def Set_def Let_def)

theorem Read_passthrough_witness:
  "State \<lparr>Diagnostics = [], State = Some (declared ''a.iso'' ''tmp'' ''<x/>'')\<rparr> =
     Some (declared ''a.iso'' ''tmp'' ''<x/>'') \<and>
   State (fst (Read quoting_env empty_os (declared ''a.iso'' ''tmp'' ''<x/>'')
     \<lparr>Diagnostics = [], State = Some (declared ''a.iso'' ''tmp'' ''<x/>'')\<rparr>)) =
     Some (declared ''a.iso'' ''tmp'' ''<x/>'') \<and>
   snd (Read quoting_env empty_os (declared ''a.iso'' ''tmp'' ''<x/>'')
     \<lparr>Diagnostics = [], State = Some (declared ''a.iso'' ''tmp'' ''<x/>'')\<rparr>) = empty_os"
  using Read_passthrough [of
      "\<lparr>Diagnostics = [], State = Some (declared ''a.iso'' ''tmp'' ''<x/>'')\<rparr>"
      "declared ''a.iso'' ''tmp'' ''<x/>''" quoting_env empty_os]
  by simp

text \<open>
  C7: \<^verbatim>\<open>Update\<close> leaves the file system as it is and, when it reports no error, hands back
  the plan as the new state. After a \<^verbatim>\<open>Create\<close> that set the state, an \<^verbatim>\<open>Update\<close> with
  any plan leaves at the recorded path the image that \<^verbatim>\<open>Create\<close> wrote for the first
  declaration.
\<close>

theorem Update_leaves_image:
  assumes "State resp = None"
    and "State (fst (Create ev os plan resp)) = Some d"
    and "ResultPath d = StringValue p"
  shows "snd (Update ev' os' plan' resp') = os' \<and>
         (\<not> HasError (Diagnostics (fst (Update ev' os' plan' resp'))) \<longrightarrow>
            State (fst (Update ev' os' plan' resp')) = Some plan') \<and>
         files (snd (Update ev' (snd (Create ev os plan resp)) plan' resp')) p =
           Some (encode ev ''unattend'' (added_entries ev plan))"
proof -
  have frame: "snd (Update e o1 q r) = o1" for e o1 q r
    by (simp add: Update_def Let_def)
  have emitted: "\<not> HasError (Diagnostics (fst (Update ev' os' plan' resp'))) \<longrightarrow>
      State (fst (Update ev' os' plan' resp')) = Some plan'"
    by (simp add: Update_def Let_def State_Set HasError_Set HasError_Append del: Append.simps)
  from Create_written [OF assms(1,2)] assms(3)
  have "files (snd (Create ev os plan resp)) p =
      Some (encode ev ''unattend'' (added_entries ev plan))"
    by auto
  with frame emitted show ?thesis by simp
qed

theorem Update_leaves_image_witness:
  "State empty_response = None \<and>
   (\<exists>d. State (fst (Create quoting_env empty_os (declared ''answer.iso'' ''/data/'' ''<x/>'')
                  empty_response)) = Some d \<and>
        ResultPath d = StringValue (''/tmp/'' @ quoted (StringValue ''answer.iso'') @ ''123456'')) \<and>
   \<not> HasError (Diagnostics (fst (Update quoting_env empty_os
       (declared ''answer.iso'' ''/data/'' ''<y/>'') empty_response))) \<and>
   State (fst (Update quoting_env empty_os
       (declared ''answer.iso'' ''/data/'' ''<y/>'') empty_response)) =
     Some (declared ''answer.iso'' ''/data/'' ''<y/>'') \<and>
   files (snd (Update quoting_env
       (snd (Create quoting_env empty_os (declared ''answer.iso'' ''/data/'' ''<x/>'')
               empty_response))
       (declared ''answer.iso'' ''/data/'' ''<y/>'') empty_response)) (''/tmp/'' @ quoted (StringValue ''answer.iso'') @ ''123456'') =
     Some (encode quoting_env ''unattend''
             (added_entries quoting_env (declared ''answer.iso'' ''/data/'' ''<x/>'')))"
proof -
  have h1: "State empty_response = None"
    by (simp add: empty_response_def)
  have h2: "State (fst (Create quoting_env empty_os (declared ''answer.iso'' ''/data/'' ''<x/>'')
      empty_response)) =
     Some \<lparr>Id = StringValue ''example-id'', FileName = StringValue ''answer.iso'',
           PathOverride = StringValue ''/data/'', XMLContent = StringValue ''<x/>'',
           ResultPath = StringValue (''/tmp/'' @ quoted (StringValue ''answer.iso'') @ ''123456'')\<rparr>"
    by (simp add: Create_data_quoting_example)
  have h3: "ResultPath \<lparr>Id = StringValue ''example-id'', FileName = StringValue ''answer.iso'',
           PathOverride = StringValue ''/data/'', XMLContent = StringValue ''<x/>'',
           ResultPath = StringValue (''/tmp/'' @ quoted (StringValue ''answer.iso'') @ ''123456'')\<rparr> =
         StringValue (''/tmp/'' @ quoted (StringValue ''answer.iso'') @ ''123456'')"
    by simp
  have h4: "\<not> HasError (Diagnostics (fst (Update quoting_env empty_os
       (declared ''answer.iso'' ''/data/'' ''<y/>'') empty_response)))"
    by (simp add: Update_def Set_def quoting_env_def quiet_env_def empty_response_def)
  from Update_leaves_image [OF h1 h2 h3, of quoting_env empty_os
      "declared ''answer.iso'' ''/data/'' ''<y/>''" empty_response] h1 h2 h3 h4
  show ?thesis by blast
qed

text \<open>
  C8: \<^verbatim>\<open>Delete\<close> leaves the file system as it is, writes nothing to the state of its
  response and adds no error of its own, so that the host forgets the tracked state.
  After a \<^verbatim>\<open>Create\<close> that set the state, the image is still at the recorded path when
  \<^verbatim>\<open>Delete\<close> has returned.
\<close>

theorem Delete_leaves_image:
  assumes "State resp = None"
    and "State (fst (Create ev os plan resp)) = Some d"
    and "ResultPath d = StringValue p"
  shows "snd (Delete ev' os' state resp') = os' \<and>
         State (fst (Delete ev' os' state resp')) = State resp' \<and>
         HasError (Diagnostics (fst (Delete ev' os' state resp'))) =
           (HasError (Diagnostics resp') \<or> HasError (Get_diags ev')) \<and>
         files (snd (Delete ev' (snd (Create ev os plan resp)) d resp')) p =
           Some (encode ev ''unattend'' (added_entries ev plan))"
proof -
  have frame: "snd (Delete e o1 q r) = o1" for e o1 q r
    by (simp add: Delete_def Let_def)
  have st: "State (fst (Delete ev' os' state resp')) = State resp'"
    by (simp add: Delete_def Let_def)
  have diag: "HasError (Diagnostics (fst (Delete ev' os' state resp'))) =
           (HasError (Diagnostics resp') \<or> HasError (Get_diags ev'))"
    by (simp add: Delete_def Let_def HasError_Append del: Append.simps)
  from Create_written [OF assms(1,2)] assms(3)
  have "files (snd (Create ev os plan resp)) p =
      Some (encode ev ''unattend'' (added_entries ev plan))"
    by auto
  with frame st diag show ?thesis by simp
qed

theorem Delete_leaves_image_witness:
  "State empty_response = None \<and>
   (\<exists>d. State (fst (Create quoting_env empty_os (declared ''answer.iso'' ''/data/'' ''<x/>'')
                  empty_response)) = Some d \<and>
        ResultPath d = StringValue (''/tmp/'' @ quoted (StringValue ''answer.iso'') @ ''123456'') \<and>
        files (snd (Delete quoting_env
          (snd (Create quoting_env empty_os (declared ''answer.iso'' ''/data/'' ''<x/>'')
                  empty_response))
          d empty_response)) (''/tmp/'' @ quoted (StringValue ''answer.iso'') @ ''123456'') =
        Some (encode quoting_env ''unattend''
                (added_entries quoting_env (declared ''answer.iso'' ''/data/'' ''<x/>''))))"
proof -
  have h1: "State empty_response = None"
    by (simp add: empty_response_def)
  have h2: "State (fst (Create quoting_env empty_os (declared ''answer.iso'' ''/data/'' ''<x/>'')
      empty_response)) =
     Some \<lparr>Id = StringValue ''example-id'', FileName = StringValue ''answer.iso'',
           PathOverride = StringValue ''/data/'', XMLContent = StringValue ''<x/>'',
           ResultPath = StringValue (''/tmp/'' @ quoted (StringValue ''answer.iso'') @ ''123456'')\<rparr>"
    by (simp add: Create_data_quoting_example)
  have h3: "ResultPath \<lparr>Id = StringValue ''example-id'', FileName = StringValue ''answer.iso'',
           PathOverride = StringValue ''/data/'', XMLContent = StringValue ''<x/>'',
           ResultPath = StringValue (''/tmp/'' @ quoted (StringValue ''answer.iso'') @ ''123456'')\<rparr> =
         StringValue (''/tmp/'' @ quoted (StringValue ''answer.iso'') @ ''123456'')"
    by simp
  from Delete_leaves_image [OF h1 h2 h3, of quoting_env empty_os
      "declared ''answer.iso'' ''/data/'' ''<x/>''" empty_response] h1 h2 h3
  show ?thesis by blast
qed

subsection \<open>The handle of the destination file\<close>

text \<open>
  C9 says that the handle of the destination file is closed on every exit path.
  \<^verbatim>\<open>Create\<close> closes no file: in the run that succeeds and in the run whose write fails,
  the handle is open when \<^verbatim>\<open>Create\<close> has returned.
\<close>

theorem Create_handle_released_counterexample:
  "(''/tmp/'' @ quoted (StringValue ''answer.iso'') @ ''123456'') \<in> set (open_files (snd
      (Create quoting_env empty_os (declared ''answer.iso'' ''/data/'' ''<x/>'') empty_response))) \<and>
   (''/tmp/'' @ quoted (StringValue ''a.iso'') @ ''123456'') \<in> set (open_files (snd
      (Create quoting_env full_disk (declared ''a.iso'' ''/tmp/out/'' ''<x/>'') empty_response)))"
  by (simp add: Create_data_quoting_example Create_full_disk_example)

text \<open>
  C9, as amended: in every run of \<^verbatim>\<open>Create\<close> that opens the destination file, in either
  branch, the handle is still open when \<^verbatim>\<open>Create\<close> returns, whether the write succeeded
  or failed; the open handles are those from before and this one.
\<close>

theorem Create_leaves_handle_open:
  assumes "\<not> HasError (Diagnostics resp)" and "\<not> HasError (Get_diags ev)"
    and "NewWriter_error ev = None"
    and "String_of ev (XMLContent plan) = [] \<or> AddFile_error ev = None"
    and "WriteTo_error ev = None"
    and "open_destination ev os plan = Inr (file, os1)"
  shows "open_files (snd (Create ev os plan resp)) = open_files os @ [file]"
proof -
  let ?resp = "resp\<lparr>Diagnostics := Append (Diagnostics resp) (Get_diags ev)\<rparr>"
  let ?data = "plan\<lparr>Id := StringValue ''example-id''\<rparr>"
  let ?b = "encode ev ''unattend'' (added_entries ev plan)"
  have ok: "\<not> HasError (Append (Diagnostics resp) (Get_diags ev))"
    using assms(1,2) by (simp add: HasError_Append)
  have "snd (Create ev os plan resp) = snd (Create_body ev os ?data \<lparr>staged = []\<rparr> ?resp)"
    using ok assms(3)
    by (cases "Create_body ev os ?data \<lparr>staged = []\<rparr> ?resp"; cases "Cleanup_error ev")
      (simp_all add: Create_def NewWriter_def Cleanup_def)
  also have "\<dots> = snd (Write os1 file ?b)"
  proof (cases "Write os1 file ?b")
    case (Pair e os2)
    with assms(4,5,6) show ?thesis
      unfolding Create_body_result by (cases e) auto
  qed
  finally have "open_files (snd (Create ev os plan resp)) = open_files (snd (Write os1 file ?b))"
    by simp
  also have "\<dots> = open_files os1"
    by (rule Write_open_files)
  also have "\<dots> = open_files os @ [file]"
    using open_destination_Inr [OF assms(6)] by simp
  finally show ?thesis .
qed

theorem Create_leaves_handle_open_witness:
  "\<not> HasError (Diagnostics empty_response) \<and> \<not> HasError (Get_diags quoting_env) \<and>
   NewWriter_error quoting_env = None \<and> AddFile_error quoting_env = None \<and>
   WriteTo_error quoting_env = None \<and>
   open_destination quoting_env full_disk (declared ''a.iso'' ''/tmp/out/'' ''<x/>'') =
     Inr ((''/tmp/'' @ quoted (StringValue ''a.iso'') @ ''123456''),
          full_disk\<lparr>files := [(''/tmp/'' @ quoted (StringValue ''a.iso'') @ ''123456'') \<mapsto> []],
                    open_files := [(''/tmp/'' @ quoted (StringValue ''a.iso'') @ ''123456'')], random := []\<rparr>) \<and>
   open_files (snd (Create quoting_env full_disk (declared ''a.iso'' ''/tmp/out/'' ''<x/>'')
      empty_response)) = open_files full_disk @ [(''/tmp/'' @ quoted (StringValue ''a.iso'') @ ''123456'')]"
proof -
  have h1: "\<not> HasError (Diagnostics empty_response)"
    by (simp add: empty_response_def)
  have h2: "\<not> HasError (Get_diags quoting_env)"
    by (simp add: quoting_env_def quiet_env_def)
  have h3: "NewWriter_error quoting_env = None"
    by (simp add: quoting_env_def quiet_env_def)
  have h4: "AddFile_error quoting_env = None"
    by (simp add: quoting_env_def quiet_env_def)
  have h5: "WriteTo_error quoting_env = None"
    by (simp add: quoting_env_def quiet_env_def)
  from Create_leaves_handle_open [OF h1 h2 h3 disjI2 [OF h4] h5 open_destination_example]
    h1 h2 h3 h4 h5 open_destination_example
  show ?thesis by blast
qed

subsection \<open>The identifier\<close>

text \<open>
  C10: every \<^verbatim>\<open>Create\<close> that sets the state sets the identifier to the constant
  \<^verbatim>\<open>example-id\<close>, whatever is declared, so any two declarations receive the same
  identifier.
\<close>

theorem Create_constant_identifier:
  assumes "State resp1 = None" and "State resp2 = None"
    and "State (fst (Create ev1 os1 plan1 resp1)) = Some d1"
    and "State (fst (Create ev2 os2 plan2 resp2)) = Some d2"
  shows "Id d1 = StringValue ''example-id'' \<and> Id d2 = Id d1"
proof -
  from Create_committed [OF assms(1) assms(3)] assms(3)
  have "Id d1 = StringValue ''example-id''"
    by (auto simp: committed_def)
  moreover from Create_committed [OF assms(2) assms(4)] assms(4)
  have "Id d2 = StringValue ''example-id''"
    by (auto simp: committed_def)
  ultimately show ?thesis by simp
qed

theorem Create_constant_identifier_witness:
  "State empty_response = None \<and>
   declared ''answer.iso'' ''/data/'' ''<x/>'' \<noteq> declared ''answer.iso'' ''tmp'' ''<x/>'' \<and>
   (\<exists>d1 d2.
      State (fst (Create quoting_env empty_os (declared ''answer.iso'' ''/data/'' ''<x/>'')
                   empty_response)) = Some d1 \<and>
      State (fst (Create quoting_env other_temp_os (declared ''answer.iso'' ''tmp'' ''<x/>'')
                   empty_response)) = Some d2 \<and>
      Id d1 = StringValue ''example-id'' \<and> Id d2 = Id d1)"
  using Create_constant_identifier [of empty_response empty_response
      quoting_env empty_os "declared ''answer.iso'' ''/data/'' ''<x/>''" _
      quoting_env other_temp_os "declared ''answer.iso'' ''tmp'' ''<x/>''"]
  by (simp add: Create_data_quoting_example Create_tmp_quoting_example)
    (simp add: empty_response_def declared_def)

end
